theory Spec2Isabelle
  imports Main "HOL-Library.AList"
begin

section \<open>Values, generators and plugin entry points\<close>

text \<open>
  The plugin backend (\<^verbatim>\<open>plugin_manager.py\<close>, \<^verbatim>\<open>server.py\<close>) loads Python code units
  and calls their functions. Plugin code is input to the backend, so an entry point is
  modelled by what a call of it does.

  A generator (the object a \<^verbatim>\<open>def\<close> or \<^verbatim>\<open>async def\<close> with \<^verbatim>\<open>yield\<close> returns)
  is the list of the items it yields and the way it ends. Every action carries the time,
  in the units of the consumer's timeout, that the consumer waits for it on the queue.

  Each operation of the backend is a function of the state that runs to its end: the
  coroutines of the event loop are not interleaved. A task that is cancelled ends with
  \<^verbatim>\<open>CancelledError\<close>, plugin code raises only subclasses of \<^verbatim>\<open>Exception\<close>, and the file
  system does what it is asked. Messages of exceptions that the Python runtime words are
  abbreviated; those the backend words are literal.
\<close>

datatype ending =
    Returns nat
  | Raises nat string
  | Hangs

datatype pyval =
    VNone
  | VBool bool
  | VInt int
  | VStr string
  | VList "pyval list"
  | VGenerator "(nat \<times> pyval) list" ending
  | VAsyncGenerator "(nat \<times> pyval) list" ending
  | VCoroutine

type_synonym args = "pyval list"
type_synonym kwargs = "(string \<times> pyval) list"
type_synonym generator = "(nat \<times> pyval) list \<times> ending"

text \<open>
  The four kinds of function that \<^verbatim>\<open>inspect\<close> and \<^verbatim>\<open>asyncio\<close> tell apart:
  \<^verbatim>\<open>def\<close> (PlainFn), \<^verbatim>\<open>def\<close> with \<^verbatim>\<open>yield\<close> (GenFn, \<^verbatim>\<open>isgeneratorfunction\<close>),
  \<^verbatim>\<open>async def\<close> (CoroFn, \<^verbatim>\<open>iscoroutinefunction\<close>) and \<^verbatim>\<open>async def\<close> with
  \<^verbatim>\<open>yield\<close> (AsyncGenFn, \<^verbatim>\<open>isasyncgenfunction\<close>). A plain or coroutine function returns
  a value or raises (\<open>Inl\<close> the message of the exception); calling a generator function
  runs none of its body and returns the generator object.
\<close>

datatype pyfunc =
    PlainFn "args \<Rightarrow> kwargs \<Rightarrow> string + pyval"
  | GenFn "args \<Rightarrow> kwargs \<Rightarrow> generator"
  | CoroFn "args \<Rightarrow> kwargs \<Rightarrow> string + pyval"
  | AsyncGenFn "args \<Rightarrow> kwargs \<Rightarrow> generator"

type_synonym pymodule = "string \<rightharpoonup> pyfunc"

fun iscoroutinefunction :: "pyfunc \<Rightarrow> bool" where
  "iscoroutinefunction (CoroFn f) = True"
| "iscoroutinefunction f = False"



text \<open>
  \<^verbatim>\<open>func(*args, **kwargs)\<close>: the plain call. For an \<^verbatim>\<open>async def\<close> it returns the
  coroutine object and runs nothing.
\<close>

fun call :: "pyfunc \<Rightarrow> args \<Rightarrow> kwargs \<Rightarrow> string + pyval" where
  "call (PlainFn f) a k = f a k"
| "call (GenFn g) a k = Inr (VGenerator (fst (g a k)) (snd (g a k)))"
| "call (CoroFn f) a k = Inr VCoroutine"
| "call (AsyncGenFn g) a k = Inr (VAsyncGenerator (fst (g a k)) (snd (g a k)))"

text \<open>\<^verbatim>\<open>await func(*args, **kwargs)\<close> for a coroutine function.\<close>

fun await_call :: "pyfunc \<Rightarrow> args \<Rightarrow> kwargs \<Rightarrow> string + pyval" where
  "await_call (CoroFn f) a k = f a k"
| "await_call f a k = call f a k"

text \<open>
  \<^verbatim>\<open>PluginInstance._run_in_executor\<close>: the call runs in a worker thread; its value or its
  exception comes back to the awaiting caller.
\<close>

definition run_in_executor :: "pyfunc \<Rightarrow> args \<Rightarrow> kwargs \<Rightarrow> string + pyval" where
  "run_in_executor func a k = call func a k"

section \<open>Plugin instances and the registry\<close>

text \<open>
  An \<^verbatim>\<open>asyncio.Task\<close> held in \<^verbatim>\<open>PluginInstance.streams\<close>: still running, finished, ended
  by an exception that nobody has retrieved yet, or cancelled.
\<close>

datatype task = Pending | Finished | Failed string | Cancelled

record plugin_instance =
  plugin_id :: string
  pmodule :: "pymodule option"
  streams :: "(string \<times> task) list"

text \<open>What the backend does to the world outside its own tables.\<close>

datatype effect =
    RequirementsInstalled "string list"
  | InitializeCalled string
  | CleanupCalled string
  | TaskCancelled string string

record server =
  plugins :: "string \<rightharpoonup> plugin_instance"
  connections :: "string set"
  trace :: "effect list"

text \<open>
  \<^verbatim>\<open>hasattr(self.module, name)\<close> followed by \<^verbatim>\<open>getattr(self.module, name)\<close>, as one
  lookup: \<open>None\<close> when the module has no such attribute. The attributes of a plugin
  module are its functions; \<^verbatim>\<open>self.module\<close> is \<^verbatim>\<open>None\<close> before \<^verbatim>\<open>load\<close>.
\<close>

definition getattr :: "pymodule option \<Rightarrow> string \<Rightarrow> pyfunc option" where
  "getattr m name = (case m of None \<Rightarrow> None | Some d \<Rightarrow> d name)"

subsection \<open>execute\<close>

text \<open>\<^verbatim>\<open>PluginInstance.execute_function\<close>.\<close>

definition execute_function ::
  "plugin_instance \<Rightarrow> string \<Rightarrow> args \<Rightarrow> kwargs \<Rightarrow> string + pyval" where
  "execute_function self function_name a k =
     (case getattr (pmodule self) function_name of
        None \<Rightarrow> Inl (''Function '' @ function_name @ '' not found in plugin'')
      | Some func \<Rightarrow>
          if iscoroutinefunction func then await_call func a k
          else run_in_executor func a k)"

text \<open>
  \<^verbatim>\<open>PluginManager.execute_plugin_function\<close>: the dictionary \<^verbatim>\<open>{"error": ...}\<close> is \<open>Inl\<close>,
  \<^verbatim>\<open>{"result": ...}\<close> is \<open>Inr\<close>.
\<close>

definition execute_plugin_function ::
  "server \<Rightarrow> string \<Rightarrow> string \<Rightarrow> args \<Rightarrow> kwargs \<Rightarrow> string + pyval" where
  "execute_plugin_function s pid function_name a k =
     (case plugins s pid of
        None \<Rightarrow> Inl (''Plugin '' @ pid @ '' not loaded'')
      | Some plugin \<Rightarrow>
          (case execute_function plugin function_name a k of
             Inr result \<Rightarrow> Inr result
           | Inl e \<Rightarrow> Inl e))"

subsection \<open>Streaming: the producer task\<close>

text \<open>
  \<^verbatim>\<open>hasattr(result, '__aiter__')\<close> and \<^verbatim>\<open>hasattr(result, '__iter__')\<close>, with the
  iteration of the result: a list gives its elements and a string its characters, at once.
\<close>

fun aiter :: "pyval \<Rightarrow> generator option" where
  "aiter (VAsyncGenerator ys e) = Some (ys, e)"
| "aiter v = None"

fun iter :: "pyval \<Rightarrow> generator option" where
  "iter (VGenerator ys e) = Some (ys, e)"
| "iter (VList xs) = Some (map (Pair 0) xs, Returns 0)"
| "iter (VStr cs) = Some (map (\<lambda>c. (0, VStr [c])) cs, Returns 0)"
| "iter v = None"

text \<open>
  The \<^verbatim>\<open>try\<close> block of \<^verbatim>\<open>PluginInstance._run_streaming_function\<close>, in the order of its
  tests: the items the task puts on the queue and the way the block ends. The name in the
  two messages is the function's \<^verbatim>\<open>__name__\<close>, taken to be the name it is looked up by.
\<close>

fun produce :: "string \<Rightarrow> pyfunc \<Rightarrow> args \<Rightarrow> kwargs \<Rightarrow> generator" where
  "produce name (AsyncGenFn g) a k = g a k"
| "produce name (GenFn g) a k = g a k"
| "produce name (CoroFn f) a k =
     (case f a k of
        Inl e \<Rightarrow> ([], Raises 0 e)
      | Inr result \<Rightarrow>
          (case aiter result of
             Some gen \<Rightarrow> gen
           | None \<Rightarrow>
               (case iter result of
                  Some gen \<Rightarrow> gen
                | None \<Rightarrow>
                    ([], Raises 0 (''Async function '' @ name @ '' did not return a generator'')))))"
| "produce name (PlainFn f) a k =
     (case f a k of
        Inl e \<Rightarrow> ([], Raises 0 e)
      | Inr result \<Rightarrow>
          (case iter result of
             Some gen \<Rightarrow> gen
           | None \<Rightarrow> ([], Raises 0 (''Function '' @ name @ '' did not return a generator''))))"

text \<open>
  The whole of \<^verbatim>\<open>_run_streaming_function\<close>: an exception is logged and raised again, and
  the \<^verbatim>\<open>finally\<close> clause puts \<^verbatim>\<open>None\<close> on the queue, so the queue receives the items and
  then \<^verbatim>\<open>None\<close>, unless the function never ends.
\<close>

fun end_marker :: "ending \<Rightarrow> (nat \<times> pyval) list" where
  "end_marker (Returns d) = [(d, VNone)]"
| "end_marker (Raises d e) = [(d, VNone)]"
| "end_marker Hangs = []"

definition run_streaming_function ::
  "string \<Rightarrow> pyfunc \<Rightarrow> args \<Rightarrow> kwargs \<Rightarrow> (nat \<times> pyval) list \<times> ending" where
  "run_streaming_function name func a k =
     (case produce name func a k of (ys, e) \<Rightarrow> (ys @ end_marker e, e))"

text \<open>The state of the task once it has put everything on the queue.\<close>

fun task_result :: "ending \<Rightarrow> task" where
  "task_result (Returns d) = Finished"
| "task_result (Raises d e) = Failed e"
| "task_result Hangs = Pending"

text \<open>
  The state of the producer task at the moment the consumer leaves its loop with the puts
  \<open>remaining\<close> not yet taken from the queue: the task is done when nothing it still has to
  do takes time.
\<close>

definition task_at :: "(nat \<times> pyval) list \<Rightarrow> ending \<Rightarrow> task" where
  "task_at remaining e =
     (if (\<exists>p \<in> set remaining. 0 < fst p) then Pending else task_result e)"

subsection \<open>Streaming: the consumer\<close>

definition stream_timeout :: nat where
  "stream_timeout = 10"

text \<open>
  One turn of the \<^verbatim>\<open>while True\<close> loop of \<^verbatim>\<open>PluginInstance.stream_function\<close>:
  \<^verbatim>\<open>asyncio.wait_for(queue.get(), timeout=10.0)\<close> gives the next item if it arrives before
  the timeout; on \<^verbatim>\<open>TimeoutError\<close> and on \<^verbatim>\<open>None\<close> the loop is left.
\<close>

datatype pulled =
    Yield pyval "(nat \<times> pyval) list"
  | Break "(nat \<times> pyval) list"

fun pull :: "(nat \<times> pyval) list \<Rightarrow> pulled" where
  "pull [] = Break []"
| "pull ((d, data) # rest) =
     (if stream_timeout \<le> d then Break ((d, data) # rest)
      else if data = VNone then Break rest
      else Yield data rest)"

text \<open>
  The code of \<^verbatim>\<open>stream_function\<close> before its loop: the lookup of the function, the queue
  and the producer task, registered under the stream id.
\<close>

definition stream_function_start ::
  "plugin_instance \<Rightarrow> string \<Rightarrow> string \<Rightarrow> args \<Rightarrow> kwargs \<Rightarrow>
     string + (plugin_instance \<times> (nat \<times> pyval) list \<times> ending)" where
  "stream_function_start self stream_id function_name a k =
     (case getattr (pmodule self) function_name of
        None \<Rightarrow> Inl (''Function '' @ function_name @ '' not found in plugin'')
      | Some func \<Rightarrow>
          Inr (self\<lparr>streams := AList.update stream_id Pending (streams self)\<rparr>,
               run_streaming_function function_name func a k))"

text \<open>
  The \<^verbatim>\<open>finally\<close> clause of \<^verbatim>\<open>stream_function\<close>: a task that is not done is cancelled
  and awaited, then the stream id is popped. A cancelled producer ends with
  \<^verbatim>\<open>CancelledError\<close>, which the clause swallows.
\<close>

definition stream_function_finally ::
  "plugin_instance \<Rightarrow> string \<Rightarrow> task \<Rightarrow> plugin_instance \<times> effect list" where
  "stream_function_finally self stream_id t =
     (self\<lparr>streams := AList.delete stream_id (streams self)\<rparr>,
      if t = Pending then [TaskCancelled (plugin_id self) stream_id] else [])"

subsection \<open>Streaming: the relay to the client\<close>

text \<open>
  \<^verbatim>\<open>websocket.send_json\<close> encodes its argument with \<^verbatim>\<open>json.dumps\<close>, which raises
  \<^verbatim>\<open>TypeError\<close> on a generator or coroutine object.
\<close>

fun json_serializable :: "pyval \<Rightarrow> bool" where
  "json_serializable VNone = True"
| "json_serializable (VBool b) = True"
| "json_serializable (VInt i) = True"
| "json_serializable (VStr cs) = True"
| "json_serializable (VList xs) = list_all json_serializable xs"
| "json_serializable (VGenerator ys e) = False"
| "json_serializable (VAsyncGenerator ys e) = False"
| "json_serializable VCoroutine = False"

text \<open>The unsolicited events of \<^verbatim>\<open>handle_stream\<close>: stream id, then data or error text.\<close>

datatype event =
    stream_data string pyval
  | stream_error string string

lemma pull_Yield_shorter: "pull q = Yield data rest \<Longrightarrow> length rest < length q"
  by (cases q) (auto split: if_splits)

text \<open>
  The \<^verbatim>\<open>async for\<close> loop of \<^verbatim>\<open>handle_stream\<close> over the generator
  \<^verbatim>\<open>stream_function\<close>: each item pulled is sent as a \<^verbatim>\<open>stream_data\<close> event; the loop is
  left when the plugin has no connection, and an exception of \<^verbatim>\<open>send_json\<close> is reported
  as a \<^verbatim>\<open>stream_error\<close> event. The result is the events sent and the puts not taken
  from the queue.
\<close>

function relay :: "bool \<Rightarrow> string \<Rightarrow> (nat \<times> pyval) list \<Rightarrow> event list \<times> (nat \<times> pyval) list" where
  "relay connected stream_id q =
     (case pull q of
        Break remaining \<Rightarrow> ([], remaining)
      | Yield data rest \<Rightarrow>
          if \<not> connected then ([], rest)
          else if \<not> json_serializable data
          then ([stream_error stream_id ''Object is not JSON serializable''], rest)
          else (case relay connected stream_id rest of
                  (evs, remaining) \<Rightarrow> (stream_data stream_id data # evs, remaining)))"
  by pat_completeness auto
termination
  by (relation "measure (\<lambda>(c, sid, q). length q)") (auto simp: pull_Yield_shorter)

declare relay.simps [simp del]

text \<open>
  \<^verbatim>\<open>PluginManager.stream_plugin_function\<close> up to the first item: an unknown plugin raises,
  otherwise the generator of the instance is started.
\<close>

definition stream_plugin_function ::
  "server \<Rightarrow> string \<Rightarrow> string \<Rightarrow> string \<Rightarrow> args \<Rightarrow> kwargs \<Rightarrow>
     string + (plugin_instance \<times> (nat \<times> pyval) list \<times> ending)" where
  "stream_plugin_function s pid stream_id function_name a k =
     (case plugins s pid of
        None \<Rightarrow> Inl (''Plugin '' @ pid @ '' not loaded'')
      | Some plugin \<Rightarrow> stream_function_start plugin stream_id function_name a k)"

text \<open>
  \<^verbatim>\<open>handle_stream\<close>: without a connection nothing happens; an exception of the generator
  (unknown plugin, unknown function) is reported as \<^verbatim>\<open>stream_error\<close>; otherwise the
  items are relayed, and the \<^verbatim>\<open>finally\<close> clause of \<^verbatim>\<open>stream_function\<close> runs when the
  generator is exhausted or closed.
\<close>

definition handle_stream ::
  "server \<Rightarrow> string \<Rightarrow> string \<Rightarrow> string \<Rightarrow> args \<Rightarrow> kwargs \<Rightarrow> server \<times> event list" where
  "handle_stream s pid stream_id function_name a k =
     (if pid \<notin> connections s then (s, [])
      else
        (case stream_plugin_function s pid stream_id function_name a k of
           Inl e \<Rightarrow> (s, [stream_error stream_id e])
         | Inr (plugin1, q, e) \<Rightarrow>
             (case relay (pid \<in> connections s) stream_id q of
                (evs, remaining) \<Rightarrow>
                  (case stream_function_finally plugin1 stream_id (task_at remaining e) of
                     (plugin2, effs) \<Rightarrow>
                       (s\<lparr>plugins := (plugins s)(pid \<mapsto> plugin2),
                          trace := trace s @ effs\<rparr>, evs)))))"

subsection \<open>Stopping streams and unloading\<close>

text \<open>
  \<^verbatim>\<open>task.cancel()\<close> followed by \<^verbatim>\<open>await task\<close> under \<^verbatim>\<open>except asyncio.CancelledError\<close>:
  a running task is cancelled; awaiting a task that ended by an exception raises it.
\<close>

fun cancel_and_await :: "task \<Rightarrow> string + task" where
  "cancel_and_await Pending = Inr Cancelled"
| "cancel_and_await Finished = Inr Finished"
| "cancel_and_await (Failed e) = Inl e"
| "cancel_and_await Cancelled = Inr Cancelled"

text \<open>\<^verbatim>\<open>PluginInstance.stop_stream\<close>.\<close>

definition stop_stream ::
  "plugin_instance \<Rightarrow> string \<Rightarrow> string option \<times> plugin_instance \<times> effect list" where
  "stop_stream self stream_id =
     (case map_of (streams self) stream_id of
        None \<Rightarrow> (None, self, [])
      | Some t \<Rightarrow>
          (case cancel_and_await t of
             Inl e \<Rightarrow> (Some e, self\<lparr>streams := AList.delete stream_id (streams self)\<rparr>, [])
           | Inr t' \<Rightarrow>
               (None, self\<lparr>streams := AList.delete stream_id (streams self)\<rparr>,
                if t = Pending then [TaskCancelled (plugin_id self) stream_id] else [])))"

text \<open>
  The loop of \<^verbatim>\<open>PluginInstance.stop\<close> over \<^verbatim>\<open>self.streams.values()\<close>, in the order of
  the dictionary: the exception that leaves the loop if any, the tasks afterwards and the
  cancellations done.
\<close>

fun stop_tasks ::
  "string \<Rightarrow> (string \<times> task) list \<Rightarrow> string option \<times> (string \<times> task) list \<times> effect list" where
  "stop_tasks pid [] = (None, [], [])"
| "stop_tasks pid ((sid, t) # rest) =
     (case cancel_and_await t of
        Inl e \<Rightarrow> (Some e, (sid, t) # rest, [])
      | Inr t' \<Rightarrow>
          (case stop_tasks pid rest of
             (r, rest', effs) \<Rightarrow>
               (r, (sid, t') # rest',
                (if t = Pending then [TaskCancelled pid sid] else []) @ effs)))"

text \<open>\<^verbatim>\<open>PluginInstance.stop\<close>: \<^verbatim>\<open>self.streams.clear()\<close> is reached when the loop ends.\<close>

definition stop :: "plugin_instance \<Rightarrow> string option \<times> plugin_instance \<times> effect list" where
  "stop self =
     (case stop_tasks (plugin_id self) (streams self) of
        (None, ts, effs) \<Rightarrow> (None, self\<lparr>streams := []\<rparr>, effs)
      | (Some e, ts, effs) \<Rightarrow> (Some e, self\<lparr>streams := ts\<rparr>, effs))"

text \<open>\<^verbatim>\<open>PluginInstance.unload\<close>.\<close>

definition unload :: "plugin_instance \<Rightarrow> string option \<times> plugin_instance \<times> effect list" where
  "unload self =
     (case stop self of
        (Some e, self', effs) \<Rightarrow> (Some e, self', effs)
      | (None, self', effs) \<Rightarrow>
          (case getattr (pmodule self') ''cleanup'' of
             None \<Rightarrow> (None, self', effs)
           | Some cleanup \<Rightarrow>
               (case run_in_executor cleanup [] [] of
                  Inl e \<Rightarrow> (Some e, self', effs @ [CleanupCalled (plugin_id self')])
                | Inr result \<Rightarrow> (None, self', effs @ [CleanupCalled (plugin_id self')]))))"

text \<open>
  \<^verbatim>\<open>PluginManager.stop_stream\<close>, \<^verbatim>\<open>stop_plugin\<close> and \<^verbatim>\<open>unload_plugin\<close>. The first
  component of the result is the exception that escapes, if any.
\<close>

definition manager_stop_stream :: "server \<Rightarrow> string \<Rightarrow> string \<Rightarrow> string option \<times> server" where
  "manager_stop_stream s pid stream_id =
     (case plugins s pid of
        None \<Rightarrow> (None, s)
      | Some plugin \<Rightarrow>
          (case stop_stream plugin stream_id of
             (r, plugin', effs) \<Rightarrow>
               (r, s\<lparr>plugins := (plugins s)(pid \<mapsto> plugin'), trace := trace s @ effs\<rparr>)))"

definition stop_plugin :: "server \<Rightarrow> string \<Rightarrow> string option \<times> server" where
  "stop_plugin s pid =
     (case plugins s pid of
        None \<Rightarrow> (None, s)
      | Some plugin \<Rightarrow>
          (case stop plugin of
             (r, plugin', effs) \<Rightarrow>
               (r, s\<lparr>plugins := (plugins s)(pid \<mapsto> plugin'), trace := trace s @ effs\<rparr>)))"

definition unload_plugin :: "server \<Rightarrow> string \<Rightarrow> string option \<times> server" where
  "unload_plugin s pid =
     (case plugins s pid of
        None \<Rightarrow> (None, s)
      | Some plugin \<Rightarrow>
          (case unload plugin of
             (r, plugin', effs) \<Rightarrow>
               (r, s\<lparr>plugins := (plugins s)(pid := None), trace := trace s @ effs\<rparr>)))"

subsection \<open>Loading\<close>

text \<open>
  A code unit is what \<^verbatim>\<open>spec.loader.exec_module\<close> makes of the text written to
  \<^verbatim>\<open>main.py\<close>: an exception, or a module with its functions.
\<close>

datatype code_unit =
    ImportRaises string
  | Module pymodule

text \<open>
  \<^verbatim>\<open>PluginInstance.load\<close>: the module is executed, and its \<^verbatim>\<open>initialize\<close>, when it has
  one, is run in the executor; the result is only logged.
\<close>

definition load :: "plugin_instance \<Rightarrow> code_unit \<Rightarrow> (string + plugin_instance) \<times> effect list" where
  "load self code =
     (case code of
        ImportRaises e \<Rightarrow> (Inl e, [])
      | Module m \<Rightarrow>
          (case getattr (Some m) ''initialize'' of
             None \<Rightarrow> (Inr (self\<lparr>pmodule := Some m\<rparr>), [])
           | Some initialize \<Rightarrow>
               (case run_in_executor initialize [] [] of
                  Inl e \<Rightarrow> (Inl e, [InitializeCalled (plugin_id self)])
                | Inr result \<Rightarrow>
                    (Inr (self\<lparr>pmodule := Some m\<rparr>), [InitializeCalled (plugin_id self)]))))"

text \<open>The dictionary \<^verbatim>\<open>PluginManager.load_plugin\<close> returns.\<close>

record load_result =
  success :: bool
  error :: "string option"

text \<open>
  \<^verbatim>\<open>PluginManager.load_plugin\<close>. The code of the message is \<open>None\<close> when the message has
  no \<^verbatim>\<open>pythonCode\<close>: writing it to the file raises. The requirements are a list of strings;
  \<^verbatim>\<open>_install_requirements_global\<close> logs its failures and raises nothing. The whole body is
  under \<^verbatim>\<open>except Exception\<close>, and the registry is assigned after \<^verbatim>\<open>plugin.load()\<close>.
\<close>

definition load_plugin ::
  "server \<Rightarrow> string \<Rightarrow> code_unit option \<Rightarrow> string list \<Rightarrow> server \<times> load_result" where
  "load_plugin s pid python_code requirements =
     (case python_code of
        None \<Rightarrow> (s, \<lparr>success = False, error = Some ''write() argument must be str, not None''\<rparr>)
      | Some code \<Rightarrow>
          (let s1 = (if requirements \<noteq> []
                     then s\<lparr>trace := trace s @ [RequirementsInstalled requirements]\<rparr>
                     else s);
               plugin = \<lparr>plugin_id = pid, pmodule = None, streams = []\<rparr>
           in case load plugin code of
                (Inl e, effs) \<Rightarrow>
                  (s1\<lparr>trace := trace s1 @ effs\<rparr>, \<lparr>success = False, error = Some e\<rparr>)
              | (Inr plugin', effs) \<Rightarrow>
                  (s1\<lparr>plugins := (plugins s1)(pid \<mapsto> plugin'), trace := trace s1 @ effs\<rparr>,
                   \<lparr>success = True, error = None\<rparr>)))"

section \<open>The transport: messages and responses\<close>

text \<open>The correlation id of a message, echoed in its response.\<close>

datatype corr_id = NoId | IntId int | StrId string

text \<open>
  A decoded message, by its \<^verbatim>\<open>type\<close>: the fields \<^verbatim>\<open>handle_plugin_message\<close> reads from
  it, \<^verbatim>\<open>args\<close> and \<^verbatim>\<open>kwargs\<close> with their defaults. \<open>Other\<close> is any other type tag.
\<close>

datatype message =
    Load corr_id "code_unit option" "string list"
  | Execute corr_id string args kwargs
  | StreamStart corr_id string string args kwargs
  | StreamStop corr_id string
  | Unload corr_id
  | Other corr_id

datatype response =
    load_response corr_id bool "string option"
  | execute_response corr_id pyval "string option"
  | stream_start_response corr_id string bool
  | stream_stop_response corr_id string bool
  | unload_response corr_id bool
  | error_response corr_id string

text \<open>
  A call of \<^verbatim>\<open>handle_stream\<close> handed to \<^verbatim>\<open>asyncio.create_task\<close>: plugin id, stream id,
  function, arguments.
\<close>

type_synonym stream_request = "string \<times> string \<times> string \<times> args \<times> kwargs"

text \<open>
  \<^verbatim>\<open>handle_plugin_message\<close>: the new state, the response (\<open>None\<close> for an unknown type) and
  the background tasks created. \<^verbatim>\<open>result.get("result")\<close> and \<^verbatim>\<open>result.get("error")\<close> are
  \<^verbatim>\<open>None\<close> for a key the dictionary does not have. An exception that escapes a branch is
  answered with a response of type \<^verbatim>\<open>error\<close>.
\<close>

fun handle_plugin_message ::
  "server \<Rightarrow> string \<Rightarrow> message \<Rightarrow> server \<times> response option \<times> stream_request list" where
  "handle_plugin_message s pid (Load msg_id python_code requirements) =
     (case load_plugin s pid python_code requirements of
        (s', result) \<Rightarrow> (s', Some (load_response msg_id (success result) (error result)), []))"
| "handle_plugin_message s pid (Execute msg_id function a k) =
     (case execute_plugin_function s pid function a k of
        Inl e \<Rightarrow> (s, Some (execute_response msg_id VNone (Some e)), [])
      | Inr result \<Rightarrow> (s, Some (execute_response msg_id result None), []))"
| "handle_plugin_message s pid (StreamStart msg_id stream_id function a k) =
     (s, Some (stream_start_response msg_id stream_id True), [(pid, stream_id, function, a, k)])"
| "handle_plugin_message s pid (StreamStop msg_id stream_id) =
     (case manager_stop_stream s pid stream_id of
        (None, s') \<Rightarrow> (s', Some (stream_stop_response msg_id stream_id True), [])
      | (Some e, s') \<Rightarrow> (s', Some (error_response msg_id e), []))"
| "handle_plugin_message s pid (Unload msg_id) =
     (case unload_plugin s pid of
        (None, s') \<Rightarrow> (s', Some (unload_response msg_id True), [])
      | (Some e, s') \<Rightarrow> (s', Some (error_response msg_id e), []))"
| "handle_plugin_message s pid (Other msg_id) = (s, None, [])"

text \<open>
  One turn of the loop of \<^verbatim>\<open>websocket_endpoint\<close> for a received message: the response,
  if there is one, is sent with \<^verbatim>\<open>send_json\<close>. An exception there is caught by
  \<^verbatim>\<open>except Exception\<close>, which drops the connection.
\<close>

fun response_serializable :: "response \<Rightarrow> bool" where
  "response_serializable (execute_response msg_id result e) = json_serializable result"
| "response_serializable r = True"

datatype sent = Sent response | Nothing | Dropped string

definition websocket_receive ::
  "server \<Rightarrow> string \<Rightarrow> message \<Rightarrow> server \<times> sent \<times> stream_request list" where
  "websocket_receive s pid data =
     (case handle_plugin_message s pid data of
        (s', None, spawned) \<Rightarrow> (s', Nothing, spawned)
      | (s', Some response, spawned) \<Rightarrow>
          if response_serializable response then (s', Sent response, spawned)
          else (s'\<lparr>connections := connections s' - {pid}\<rparr>,
                Dropped ''Object is not JSON serializable'', spawned))"

text \<open>
  The \<^verbatim>\<open>except WebSocketDisconnect\<close> clause of \<^verbatim>\<open>websocket_endpoint\<close>: the connection is
  popped and \<^verbatim>\<open>plugin_manager.stop_plugin\<close> is awaited. The first component is the
  exception that escapes the clause, if any.
\<close>

definition websocket_disconnect :: "server \<Rightarrow> string \<Rightarrow> string option \<times> server" where
  "websocket_disconnect s pid = stop_plugin (s\<lparr>connections := connections s - {pid}\<rparr>) pid"

section \<open>An example plugin\<close>

text \<open>
  A camera plugin with three generators, an asynchronous generator that stalls after its
  first item and a \<^verbatim>\<open>cleanup\<close> function, loaded under the id \<^verbatim>\<open>cam\<close> with one
  running stream and a live connection.
\<close>

definition count_fn :: pyfunc where
  "count_fn = GenFn (\<lambda>a k. ([(0, VInt 1), (0, VInt 2), (0, VInt 3)], Returns 0))"

definition boom_fn :: pyfunc where
  "boom_fn = GenFn (\<lambda>a k. ([(0, VInt 1), (0, VInt 2)], Raises 0 ''boom''))"

definition gappy_fn :: pyfunc where
  "gappy_fn = GenFn (\<lambda>a k. ([(0, VInt 1), (0, VNone), (0, VInt 2)], Returns 0))"

definition ticker_fn :: pyfunc where
  "ticker_fn = AsyncGenFn (\<lambda>a k. ([(1, VInt 7)], Hangs))"

definition cleanup_fn :: pyfunc where
  "cleanup_fn = PlainFn (\<lambda>a k. Inr VNone)"

definition bad_init_fn :: pyfunc where
  "bad_init_fn = PlainFn (\<lambda>a k. Inl ''no camera'')"

definition demo_module :: pymodule where
  "demo_module =
     [''count'' \<mapsto> count_fn, ''boom'' \<mapsto> boom_fn, ''gappy'' \<mapsto> gappy_fn,
      ''ticker'' \<mapsto> ticker_fn, ''cleanup'' \<mapsto> cleanup_fn]"

definition demo_instance :: plugin_instance where
  "demo_instance = \<lparr>plugin_id = ''cam'', pmodule = Some demo_module, streams = [(''s9'', Pending)]\<rparr>"

definition demo_server :: server where
  "demo_server = \<lparr>plugins = [''cam'' \<mapsto> demo_instance], connections = {''cam''}, trace = []\<rparr>"

text \<open>
  The same server while the items of a stream whose producer has raised are still being
  relayed: the task of \<^verbatim>\<open>s1\<close> is done with its exception and not yet popped.
\<close>

definition lagging_instance :: plugin_instance where
  "lagging_instance = demo_instance\<lparr>streams := [(''s1'', Failed ''boom''), (''s2'', Pending)]\<rparr>"

definition lagging_server :: server where
  "lagging_server = demo_server\<lparr>plugins := [''cam'' \<mapsto> lagging_instance]\<rparr>"

section \<open>Lemmas\<close>

lemma demo_lookup [simp]:
  "getattr (Some demo_module) ''count'' = Some count_fn"
  "getattr (Some demo_module) ''boom'' = Some boom_fn"
  "getattr (Some demo_module) ''gappy'' = Some gappy_fn"
  "getattr (Some demo_module) ''ticker'' = Some ticker_fn"
  "getattr (Some demo_module) ''cleanup'' = Some cleanup_fn"
  "getattr (Some demo_module) ''initialize'' = None"
  "getattr (Some demo_module) ''nothing'' = None"
  by (simp_all add: getattr_def demo_module_def)

lemma demo_state [simp]:
  "plugins demo_server ''cam'' = Some demo_instance"
  "plugins demo_server ''ghost'' = None"
  "''cam'' \<in> connections demo_server"
  "pmodule demo_instance = Some demo_module"
  "plugin_id demo_instance = ''cam''"
  "streams demo_instance = [(''s9'', Pending)]"
  "trace demo_server = []"
  by (simp_all add: demo_server_def demo_instance_def)

lemma relay_Nil: "relay c sid [] = ([], [])"
  by (simp add: relay.simps)

lemma relay_Cons:
  "relay c sid ((d, v) # rest) =
     (if stream_timeout \<le> d then ([], (d, v) # rest)
      else if v = VNone then ([], rest)
      else if \<not> c then ([], rest)
      else if \<not> json_serializable v
      then ([stream_error sid ''Object is not JSON serializable''], rest)
      else (stream_data sid v # fst (relay c sid rest), snd (relay c sid rest)))"
  by (subst relay.simps) (simp split: prod.splits)


lemma relay_events:
  "\<forall>p \<in> set ys. fst p < stream_timeout \<and> json_serializable (snd p) \<Longrightarrow>
   late = [] \<or> stream_timeout \<le> fst (hd late) \<or> snd (hd late) = VNone \<Longrightarrow>
   fst (relay True sid (ys @ late)) =
     map (\<lambda>p. stream_data sid (snd p)) (takeWhile (\<lambda>p. snd p \<noteq> VNone) ys)"
proof (induction ys)
  case Nil
  then show ?case by (cases late) (auto simp: relay_Nil relay_Cons)
next
  case (Cons y ys)
  obtain dy vy where y: "y = (dy, vy)" by (cases y)
  from Cons show ?case by (simp add: y relay_Cons)
qed

lemma end_marker_head:
  "end_marker e = [] \<or> stream_timeout \<le> fst (hd (end_marker e)) \<or> snd (hd (end_marker e)) = VNone"
  by (cases e) simp_all

lemma handle_stream_found:
  assumes "pid \<in> connections s"
    and "plugins s pid = Some plugin"
    and "getattr (pmodule plugin) function_name = Some func"
    and "produce function_name func a k = (ys, e)"
  shows "handle_stream s pid stream_id function_name a k =
     (s\<lparr>plugins := (plugins s)(pid \<mapsto> plugin\<lparr>streams := AList.delete stream_id (streams plugin)\<rparr>),
        trace := trace s @
          (if task_at (snd (relay True stream_id (ys @ end_marker e))) e = Pending
           then [TaskCancelled (plugin_id plugin) stream_id] else [])\<rparr>,
      fst (relay True stream_id (ys @ end_marker e)))"
  using assms
  by (simp add: handle_stream_def stream_plugin_function_def stream_function_start_def run_streaming_function_def
      stream_function_finally_def delete_update_same split: prod.splits)

lemma stop_tasks_no_failure:
  "\<forall>p \<in> set ts. \<forall>e. snd p \<noteq> Failed e \<Longrightarrow> fst (stop_tasks pid ts) = None"
proof (induction ts)
  case Nil
  then show ?case by simp
next
  case (Cons x xs)
  obtain sid t where x: "x = (sid, t)" by (cases x)
  from Cons show ?case by (cases t) (auto simp: x split: prod.splits)
qed

lemma stop_tasks_cancels:
  "fst (stop_tasks pid ts) = None \<Longrightarrow> (sid, Pending) \<in> set ts \<Longrightarrow>
   TaskCancelled pid sid \<in> set (snd (snd (stop_tasks pid ts)))"
proof (induction ts)
  case Nil
  then show ?case by simp
next
  case (Cons x xs)
  obtain sid' t where x: "x = (sid', t)" by (cases x)
  from Cons show ?case by (cases t) (auto simp: x split: prod.splits)
qed

lemma stop_keeps_instance:
  "\<exists>ts. fst (snd (stop plugin)) = plugin\<lparr>streams := ts\<rparr>"
  by (auto simp: stop_def split: prod.splits option.splits)


section \<open>The claims\<close>




text \<open>
  Claim C2 at a producer that yields two items and raises: the two \<^verbatim>\<open>stream_data\<close> events
  are sent and the stream id is removed again, but no \<^verbatim>\<open>stream_error\<close> event follows.
  The task puts \<^verbatim>\<open>None\<close> on the queue and ends with the exception; the consumer leaves its
  loop on \<^verbatim>\<open>None\<close>, finds the task done and never awaits it, so the generator ends without
  an exception and \<^verbatim>\<open>handle_stream\<close> has nothing to report.
\<close>
theorem producer_error_not_reported:
  "produce ''boom'' boom_fn [] [] = ([(0, VInt 1), (0, VInt 2)], Raises 0 ''boom'')
   \<and> handle_stream demo_server ''cam'' ''s1'' ''boom'' [] [] =
       (demo_server, [stream_data ''s1'' (VInt 1), stream_data ''s1'' (VInt 2)])
   \<and> task_at [] (Raises 0 ''boom'') = Failed ''boom''"
  by (simp add: handle_stream_def stream_plugin_function_def stream_function_start_def run_streaming_function_def
      stream_function_finally_def relay_Cons relay_Nil task_at_def boom_fn_def
      stream_timeout_def AList.delete_eq demo_server_def demo_instance_def getattr_def
      demo_module_def)

text \<open>
  Claim C3, as the code has it: the end marker is the value \<^verbatim>\<open>None\<close>. The events relayed
  are the items yielded before the first \<^verbatim>\<open>None\<close>, in order, when each arrives before the
  timeout and can be encoded; an item \<^verbatim>\<open>None\<close> is taken for the end of the stream, and
  neither it nor any item after it is relayed.
\<close>
theorem relay_up_to_first_None:
  assumes "pid \<in> connections s"
    and "plugins s pid = Some plugin"
    and "getattr (pmodule plugin) function_name = Some func"
    and "produce function_name func a k = (ys, e)"
    and "\<forall>p \<in> set ys. fst p < stream_timeout \<and> json_serializable (snd p)"
  shows "snd (handle_stream s pid stream_id function_name a k) =
     map (\<lambda>p. stream_data stream_id (snd p)) (takeWhile (\<lambda>p. snd p \<noteq> VNone) ys)"
  using assms relay_events [of ys "end_marker e" stream_id] end_marker_head [of e]
  by (simp add: handle_stream_found)

theorem relay_up_to_first_None_witness:
  "snd (handle_stream demo_server ''cam'' ''s1'' ''gappy'' [] []) = [stream_data ''s1'' (VInt 1)]
   \<and> snd (handle_stream demo_server ''cam'' ''s1'' ''count'' [] []) =
       [stream_data ''s1'' (VInt 1), stream_data ''s1'' (VInt 2), stream_data ''s1'' (VInt 3)]"
  using relay_up_to_first_None [of "''cam''" demo_server demo_instance "''gappy''" gappy_fn "[]" "[]"
      "[(0, VInt 1), (0, VNone), (0, VInt 2)]" "Returns 0" "''s1''"]
    relay_up_to_first_None [of "''cam''" demo_server demo_instance "''count''" count_fn "[]" "[]"
      "[(0, VInt 1), (0, VInt 2), (0, VInt 3)]" "Returns 0" "''s1''"]
  by (simp add: gappy_fn_def count_fn_def stream_timeout_def)

text \<open>
  Against claim C3 as stated: the generator \<^verbatim>\<open>gappy\<close> yields 1, \<^verbatim>\<open>None\<close>, 2 and only 1
  is relayed.
\<close>
theorem yielded_None_ends_relay_counterexample:
  "produce ''gappy'' gappy_fn [] [] = ([(0, VInt 1), (0, VNone), (0, VInt 2)], Returns 0)
   \<and> snd (handle_stream demo_server ''cam'' ''s1'' ''gappy'' [] []) = [stream_data ''s1'' (VInt 1)]"
  by (simp add: handle_stream_def stream_plugin_function_def stream_function_start_def run_streaming_function_def
      stream_function_finally_def relay_Cons relay_Nil gappy_fn_def stream_timeout_def)

text \<open>
  Claim C4, as the code has it: the registry maps an id to at most one instance, and a
  successful \<^verbatim>\<open>load\<close> sets the entry of the id to the new instance, which has no
  streams. Nothing is done to an instance registered before: beyond the installation of
  the requirements and the call of \<^verbatim>\<open>initialize\<close> the trace gains no entry, so no task of
  the old instance is cancelled and its \<^verbatim>\<open>cleanup\<close> is not called.
\<close>
theorem load_replaces_without_unload:
  assumes "load_plugin s pid python_code requirements = (s', result)"
    and "success result"
  shows "\<exists>m. python_code = Some (Module m)
    \<and> plugins s' = (plugins s)(pid \<mapsto> \<lparr>plugin_id = pid, pmodule = Some m, streams = []\<rparr>)
    \<and> connections s' = connections s
    \<and> trace s' = trace s
        @ (if requirements \<noteq> [] then [RequirementsInstalled requirements] else [])
        @ (if m ''initialize'' \<noteq> None then [InitializeCalled pid] else [])"
  using assms
  by (auto simp: load_plugin_def load_def getattr_def Let_def
      split: option.splits code_unit.splits sum.splits prod.splits if_splits)

theorem load_replaces_without_unload_witness:
  "plugins (fst (load_plugin demo_server ''cam'' (Some (Module demo_module)) [''numpy''])) =
     [''cam'' \<mapsto> \<lparr>plugin_id = ''cam'', pmodule = Some demo_module, streams = []\<rparr>]
   \<and> trace (fst (load_plugin demo_server ''cam'' (Some (Module demo_module)) [''numpy''])) =
     [RequirementsInstalled [''numpy'']]"
  using load_replaces_without_unload [of demo_server "''cam''" "Some (Module demo_module)" "[''numpy'']"
      "fst (load_plugin demo_server ''cam'' (Some (Module demo_module)) [''numpy''])"
      "snd (load_plugin demo_server ''cam'' (Some (Module demo_module)) [''numpy''])"]
  by (simp add: load_plugin_def load_def demo_server_def)

text \<open>
  Against claim C4 as stated: \<^verbatim>\<open>cam\<close> is loaded with a running stream and a
  \<^verbatim>\<open>cleanup\<close> function; loading it again cancels nothing and calls nothing, where
  \<^verbatim>\<open>unload\<close> would cancel the stream and call \<^verbatim>\<open>cleanup\<close>.
\<close>
theorem load_overwrites_counterexample:
  "plugins demo_server ''cam'' = Some demo_instance
   \<and> streams demo_instance = [(''s9'', Pending)]
   \<and> getattr (pmodule demo_instance) ''cleanup'' = Some cleanup_fn
   \<and> load_plugin demo_server ''cam'' (Some (Module demo_module)) [] =
       (demo_server\<lparr>plugins := [''cam'' \<mapsto> \<lparr>plugin_id = ''cam'', pmodule = Some demo_module, streams = []\<rparr>]\<rparr>,
        \<lparr>success = True, error = None\<rparr>)
   \<and> trace (fst (load_plugin demo_server ''cam'' (Some (Module demo_module)) [])) = []
   \<and> trace (snd (unload_plugin demo_server ''cam'')) = [TaskCancelled ''cam'' ''s9'', CleanupCalled ''cam'']"
  by (simp add: load_plugin_def load_def unload_plugin_def unload_def stop_def
      run_in_executor_def cleanup_fn_def demo_server_def)

text \<open>
  Claim C5: an \<^verbatim>\<open>execute\<close> message for an id with no instance is answered with an
  \<^verbatim>\<open>execute_response\<close> whose \<^verbatim>\<open>error\<close> says that the plugin is not loaded; the
  response is sent, so no exception reaches the endpoint, and the state is unchanged.
\<close>
theorem execute_unknown_plugin:
  assumes "plugins s pid = None"
  shows "execute_plugin_function s pid function_name a k = Inl (''Plugin '' @ pid @ '' not loaded'')
    \<and> websocket_receive s pid (Execute msg_id function_name a k) =
        (s, Sent (execute_response msg_id VNone (Some (''Plugin '' @ pid @ '' not loaded''))), [])"
  using assms by (simp add: execute_plugin_function_def websocket_receive_def)

theorem execute_unknown_plugin_witness:
  "websocket_receive demo_server ''ghost'' (Execute (StrId ''m1'') ''count'' [VInt 2] []) =
     (demo_server, Sent (execute_response (StrId ''m1'') VNone (Some ''Plugin ghost not loaded'')), [])"
  using execute_unknown_plugin [of demo_server "''ghost''" "''count''" "[VInt 2]" "[]" "StrId ''m1''"]
  by simp

text \<open>
  Claim C6, as the code has it: every \<^verbatim>\<open>stream_start\<close> message is answered with
  \<^verbatim>\<open>success\<close> true and starts the relay in the background. The lookup happens there:
  for an id with no instance, and for a function the module does not have, the relay
  sends one \<^verbatim>\<open>stream_error\<close> event with the stream id, when the plugin has a connection.
\<close>
theorem stream_start_lookup_errors:
  "handle_plugin_message s pid (StreamStart msg_id stream_id function_name a k) =
     (s, Some (stream_start_response msg_id stream_id True), [(pid, stream_id, function_name, a, k)])
   \<and> (pid \<in> connections s \<longrightarrow> plugins s pid = None \<longrightarrow>
        handle_stream s pid stream_id function_name a k =
          (s, [stream_error stream_id (''Plugin '' @ pid @ '' not loaded'')]))
   \<and> (pid \<in> connections s \<longrightarrow> plugins s pid = Some plugin \<longrightarrow>
        getattr (pmodule plugin) function_name = None \<longrightarrow>
        handle_stream s pid stream_id function_name a k =
          (s, [stream_error stream_id (''Function '' @ function_name @ '' not found in plugin'')]))"
  by (simp add: handle_stream_def stream_plugin_function_def stream_function_start_def)

theorem stream_start_lookup_errors_witness:
  "handle_stream (demo_server\<lparr>connections := {''cam'', ''ghost''}\<rparr>) ''ghost'' ''s1'' ''count'' [] [] =
     (demo_server\<lparr>connections := {''cam'', ''ghost''}\<rparr>, [stream_error ''s1'' ''Plugin ghost not loaded''])
   \<and> handle_stream demo_server ''cam'' ''s1'' ''nothing'' [] [] =
     (demo_server, [stream_error ''s1'' ''Function nothing not found in plugin''])"
  using stream_start_lookup_errors [of "demo_server\<lparr>connections := {''cam'', ''ghost''}\<rparr>" "''ghost''"
      NoId "''s1''" "''count''" "[]" "[]" demo_instance]
    stream_start_lookup_errors [of demo_server "''cam''" NoId "''s1''" "''nothing''" "[]" "[]"
      demo_instance]
  by simp

text \<open>
  Against claim C6 as stated: \<^verbatim>\<open>stream_start\<close> for the id \<^verbatim>\<open>ghost\<close>, which has no
  instance, is acknowledged as successful.
\<close>
theorem stream_start_acknowledged_counterexample:
  "plugins demo_server ''ghost'' = None
   \<and> handle_plugin_message demo_server ''ghost'' (StreamStart (IntId 1) ''s1'' ''count'' [] []) =
       (demo_server, Some (stream_start_response (IntId 1) ''s1'' True),
        [(''ghost'', ''s1'', ''count'', [], [])])"
  by simp

text \<open>
  Claim C7: for a generator function that yields 1, 2, 3, each before the timeout, the
  relay sends exactly the three \<^verbatim>\<open>stream_data\<close> events with 1, 2, 3 in this order and
  no other event, however the generator ends.
\<close>
theorem stream_one_two_three:
  assumes "pid \<in> connections s"
    and "plugins s pid = Some plugin"
    and "getattr (pmodule plugin) function_name = Some (GenFn g)"
    and "g a k = ([(d1, VInt 1), (d2, VInt 2), (d3, VInt 3)], e)"
    and "d1 < stream_timeout" and "d2 < stream_timeout" and "d3 < stream_timeout"
  shows "snd (handle_stream s pid stream_id function_name a k) =
     [stream_data stream_id (VInt 1), stream_data stream_id (VInt 2), stream_data stream_id (VInt 3)]"
proof -
  have "produce function_name (GenFn g) a k = ([(d1, VInt 1), (d2, VInt 2), (d3, VInt 3)], e)"
    using assms(4) by simp
  moreover have "fst (relay True stream_id ([(d1, VInt 1), (d2, VInt 2), (d3, VInt 3)] @ end_marker e)) =
     [stream_data stream_id (VInt 1), stream_data stream_id (VInt 2), stream_data stream_id (VInt 3)]"
    using assms(5-7) relay_events [of "[(d1, VInt 1), (d2, VInt 2), (d3, VInt 3)]" "end_marker e" stream_id]
      end_marker_head [of e]
    by simp
  ultimately show ?thesis
    using assms(1-3) by (simp add: handle_stream_found)
qed

theorem stream_one_two_three_witness:
  "snd (handle_stream demo_server ''cam'' ''s1'' ''count'' [VInt 0] []) =
     [stream_data ''s1'' (VInt 1), stream_data ''s1'' (VInt 2), stream_data ''s1'' (VInt 3)]"
  using stream_one_two_three [of "''cam''" demo_server demo_instance "''count''"
      "\<lambda>a k. ([(0, VInt 1), (0, VInt 2), (0, VInt 3)], Returns 0)" "[VInt 0]" "[]" 0 0 0 "Returns 0" "''s1''"]
  by (simp add: count_fn_def stream_timeout_def)



text \<open>
  Claim C9 at an instance one of whose tasks has already ended by an exception:
  \<^verbatim>\<open>stop\<close> awaits that task under \<^verbatim>\<open>except asyncio.CancelledError\<close> only, so the
  exception leaves the loop and the disconnect clause; \<^verbatim>\<open>self.streams.clear()\<close> is not
  reached, the map keeps both handles and the running task \<^verbatim>\<open>s2\<close> is not cancelled. The
  instance stays registered.
\<close>

theorem disconnect_with_failed_task:
  "websocket_disconnect lagging_server ''cam'' =
     (Some ''boom'', lagging_server\<lparr>connections := {}\<rparr>)
   \<and> plugins (lagging_server\<lparr>connections := {}\<rparr>) ''cam'' = Some lagging_instance
   \<and> streams lagging_instance = [(''s1'', Failed ''boom''), (''s2'', Pending)]"
  by (simp add: websocket_disconnect_def stop_plugin_def stop_def lagging_server_def
      lagging_instance_def demo_server_def)

text \<open>
  The disconnect clause in general: the connection is removed and the streams of the
  instance are stopped. The instance stays registered with its module, and no other
  entry of the registry changes. When no task in the map has already ended by an exception,
  nothing is raised, every running task is cancelled and the map becomes empty.
\<close>

theorem disconnect_cancels_streams_only:
  assumes "plugins s pid = Some plugin"
  shows "(\<exists>ts. plugins (snd (websocket_disconnect s pid)) = (plugins s)(pid \<mapsto> plugin\<lparr>streams := ts\<rparr>))
    \<and> connections (snd (websocket_disconnect s pid)) = connections s - {pid}
    \<and> ((\<forall>p \<in> set (streams plugin). \<forall>e. snd p \<noteq> Failed e) \<longrightarrow>
         fst (websocket_disconnect s pid) = None
         \<and> plugins (snd (websocket_disconnect s pid)) = (plugins s)(pid \<mapsto> plugin\<lparr>streams := []\<rparr>)
         \<and> (\<forall>sid. (sid, Pending) \<in> set (streams plugin) \<longrightarrow>
               TaskCancelled (plugin_id plugin) sid \<in> set (trace (snd (websocket_disconnect s pid)))))"
proof -
  obtain r plugin' effs where st: "stop plugin = (r, plugin', effs)"
    by (cases "stop plugin") auto
  then have d: "websocket_disconnect s pid =
      (r, s\<lparr>connections := connections s - {pid}, plugins := (plugins s)(pid \<mapsto> plugin'),
             trace := trace s @ effs\<rparr>)"
    using assms by (simp add: websocket_disconnect_def stop_plugin_def)
  obtain ts where ts: "plugin' = plugin\<lparr>streams := ts\<rparr>"
    using stop_keeps_instance [of plugin] st by auto
  have frame: "\<exists>ts. plugins (snd (websocket_disconnect s pid)) = (plugins s)(pid \<mapsto> plugin\<lparr>streams := ts\<rparr>)"
    using d ts by auto
  have conn: "connections (snd (websocket_disconnect s pid)) = connections s - {pid}"
    using d by simp
  have act: "fst (websocket_disconnect s pid) = None
      \<and> plugins (snd (websocket_disconnect s pid)) = (plugins s)(pid \<mapsto> plugin\<lparr>streams := []\<rparr>)
      \<and> (\<forall>sid. (sid, Pending) \<in> set (streams plugin) \<longrightarrow>
            TaskCancelled (plugin_id plugin) sid \<in> set (trace (snd (websocket_disconnect s pid))))"
    if nf: "\<forall>p \<in> set (streams plugin). \<forall>e. snd p \<noteq> Failed e"
  proof -
    have n: "fst (stop_tasks (plugin_id plugin) (streams plugin)) = None"
      using nf by (rule stop_tasks_no_failure)
    then have "r = None" "plugin' = plugin\<lparr>streams := []\<rparr>"
      "effs = snd (snd (stop_tasks (plugin_id plugin) (streams plugin)))"
      using st by (auto simp: stop_def split: prod.splits option.splits)
    then show ?thesis
      using d stop_tasks_cancels [OF n] by simp
  qed
  from frame conn act show ?thesis by blast
qed

theorem disconnect_cancels_streams_only_witness:
  "websocket_disconnect demo_server ''cam'' =
     (None, demo_server\<lparr>connections := {},
              plugins := [''cam'' \<mapsto> demo_instance\<lparr>streams := []\<rparr>],
              trace := [TaskCancelled ''cam'' ''s9'']\<rparr>)
   \<and> pmodule (demo_instance\<lparr>streams := []\<rparr>) = Some demo_module"
  using disconnect_cancels_streams_only [of demo_server "''cam''" demo_instance]
  by (simp add: websocket_disconnect_def stop_plugin_def stop_def demo_server_def demo_instance_def)

text \<open>
  Claim C10: a \<^verbatim>\<open>load\<close> that fails returns \<^verbatim>\<open>success\<close> false with an error string and
  leaves the registry as it was, an instance registered under the id included. A code
  unit that raises when executed and an \<^verbatim>\<open>initialize\<close> that raises make it fail with the
  message of the exception.
\<close>
theorem load_failure_leaves_registry:
  assumes "load_plugin s pid python_code requirements = (s', result)"
  shows "(\<not> success result \<longrightarrow> plugins s' = plugins s \<and> error result \<noteq> None)
    \<and> (\<forall>e. python_code = Some (ImportRaises e) \<longrightarrow> result = \<lparr>success = False, error = Some e\<rparr>)
    \<and> (\<forall>m f e. python_code = Some (Module m) \<longrightarrow> m ''initialize'' = Some f \<longrightarrow>
          call f [] [] = Inl e \<longrightarrow> result = \<lparr>success = False, error = Some e\<rparr>)"
  using assms
  by (auto simp: load_plugin_def load_def getattr_def run_in_executor_def Let_def
      split: option.splits code_unit.splits sum.splits prod.splits if_splits)

theorem load_failure_leaves_registry_witness:
  "load_plugin demo_server ''cam'' (Some (Module (demo_module(''initialize'' \<mapsto> bad_init_fn)))) [] =
     (demo_server\<lparr>trace := [InitializeCalled ''cam'']\<rparr>, \<lparr>success = False, error = Some ''no camera''\<rparr>)
   \<and> plugins (demo_server\<lparr>trace := [InitializeCalled ''cam'']\<rparr>) ''cam'' = Some demo_instance"
  using load_failure_leaves_registry [of demo_server "''cam''"
      "Some (Module (demo_module(''initialize'' \<mapsto> bad_init_fn)))" "[]"
      "fst (load_plugin demo_server ''cam'' (Some (Module (demo_module(''initialize'' \<mapsto> bad_init_fn)))) [])"
      "snd (load_plugin demo_server ''cam'' (Some (Module (demo_module(''initialize'' \<mapsto> bad_init_fn)))) [])"]
  by (simp add: load_plugin_def load_def getattr_def run_in_executor_def bad_init_fn_def demo_server_def)

end
